theory Spec2Isabelle
  imports Complex_Main "HOL-Library.Log_Nat"
begin

section \<open>The Mapora engine: residue classes and their transition rule\<close>

text \<open>
  The class \<^verbatim>\<open>MaporaStack\<close> of \<^verbatim>\<open>mapora_engine.py\<close> holds a residue class
  \<^verbatim>\<open>modulus * k + residue\<close>. Its four attributes are \<^verbatim>\<open>m\<close>, \<^verbatim>\<open>r\<close>, \<^verbatim>\<open>id\<close>
  and \<^verbatim>\<open>layer\<close>; the attribute \<^verbatim>\<open>id\<close> is called \<open>symbol_id\<close> here, after
  the constructor's parameter, because \<open>id\<close> is the identity function of HOL.
  Python integers are unbounded, so they are \<open>int\<close>; no constructor checks
  its arguments, so a modulus or residue may be zero or negative.
\<close>

record MaporaStack =
  m :: int
  r :: int
  symbol_id :: string
  layer :: int

text \<open>
  \<^verbatim>\<open>get_next_state\<close> returns a new object, or Python's \<^verbatim>\<open>None\<close> where the
  parity of the class is ambiguous. Python's \<^verbatim>\<open>%\<close> and \<^verbatim>\<open>//\<close> by the positive
  constant 2 are floor operations, as \<open>mod\<close> and \<open>div\<close> on \<open>int\<close> are.
  The f-strings append one letter to the label.
\<close>

definition get_next_state :: "MaporaStack \<Rightarrow> MaporaStack option" where
  "get_next_state self =
     (if r self mod 2 = 0 then
        (if m self mod 2 = 0 then
           Some \<lparr>m = m self div 2, r = r self div 2,
                 symbol_id = symbol_id self @ ''D'', layer = layer self + 1\<rparr>
         else None)
      else
        Some \<lparr>m = 3 * m self, r = 3 * r self + 1,
              symbol_id = symbol_id self @ ''M'', layer = layer self + 1\<rparr>)"

section \<open>The budgeted traversal\<close>

text \<open>
  The local variables of \<^verbatim>\<open>get_stability_ratio\<close>: the deque (a list, oldest
  element first) and the three counters.
\<close>

record loop_state =
  queue :: "MaporaStack list"
  straight_paths :: int
  splits :: int
  nodes :: int

definition initial_state :: "int \<Rightarrow> int \<Rightarrow> loop_state" where
  "initial_state modulus residue =
     \<lparr>queue = [\<lparr>m = modulus, r = residue, symbol_id = ''ROOT'', layer = 0\<rparr>],
      straight_paths = 0, splits = 0, nodes = 0\<rparr>"

text \<open>
  The two objects appended on a bifurcation, in the order of the two
  \<^verbatim>\<open>queue.append\<close> calls.
\<close>

definition split_children :: "MaporaStack \<Rightarrow> MaporaStack list" where
  "split_children cur =
     (let new_m = m cur * 2 in
      [\<lparr>m = new_m, r = r cur, symbol_id = symbol_id cur @ ''A'', layer = layer cur + 1\<rparr>,
       \<lparr>m = new_m, r = r cur + m cur, symbol_id = symbol_id cur @ ''B'',
        layer = layer cur + 1\<rparr>])"

text \<open>
  The loop body after \<^verbatim>\<open>curr = queue.popleft()\<close>: \<open>s\<close> is the state whose
  queue has already lost \<open>cur\<close> (the source's \<^verbatim>\<open>curr\<close>; \<open>curr\<close> is a
  constant of HOL). An object of the class is always truthy (the class defines
  neither \<^verbatim>\<open>__bool__\<close> nor \<^verbatim>\<open>__len__\<close>), so \<^verbatim>\<open>if nxt\<close> tests for \<^verbatim>\<open>None\<close>
  only.
\<close>

definition loop_body :: "MaporaStack \<Rightarrow> loop_state \<Rightarrow> loop_state" where
  "loop_body cur s =
     (if r cur = 1 \<and> m cur mod 2 = 0 then s\<lparr>nodes := nodes s + 1\<rparr>
      else
        (let s' = (case get_next_state cur of
                     Some nxt \<Rightarrow>
                       s\<lparr>straight_paths := straight_paths s + 1, queue := queue s @ [nxt]\<rparr>
                   | None \<Rightarrow>
                       s\<lparr>splits := splits s + 1, queue := queue s @ split_children cur\<rparr>)
         in s'\<lparr>nodes := nodes s' + 1\<rparr>))"

text \<open>
  One test of the loop condition \<^verbatim>\<open>queue and nodes < depth_limit\<close> followed
  by one iteration; \<open>None\<close> when the loop is left.
\<close>

definition loop_step :: "int \<Rightarrow> loop_state \<Rightarrow> loop_state option" where
  "loop_step depth_limit s =
     (case queue s of
        [] \<Rightarrow> None
      | cur # rest \<Rightarrow>
          if nodes s < depth_limit then Some (loop_body cur (s\<lparr>queue := rest\<rparr>)) else None)"

text \<open>
  The while loop; the result is the state in which the loop is left. Every
  iteration adds one to \<open>nodes\<close> and is entered only below the limit, so the
  distance to the limit decreases.
\<close>

function traverse :: "int \<Rightarrow> loop_state \<Rightarrow> loop_state" where
  "traverse depth_limit s =
     (case loop_step depth_limit s of
        None \<Rightarrow> s
      | Some s' \<Rightarrow> traverse depth_limit s')"
  by pat_completeness auto
termination
  by (relation "measure (\<lambda>(depth_limit, s). nat (depth_limit - nodes s))")
     (auto simp: loop_step_def loop_body_def Let_def
           split: list.splits if_splits option.splits)

declare traverse.simps [simp del]

text \<open>
  The states at the head of the loop, in order: the state before the first
  test of the condition, then the state after each iteration.
\<close>

function run_trace :: "int \<Rightarrow> loop_state \<Rightarrow> loop_state list" where
  "run_trace depth_limit s =
     s # (case loop_step depth_limit s of
            None \<Rightarrow> []
          | Some s' \<Rightarrow> run_trace depth_limit s')"
  by pat_completeness auto
termination
  by (relation "measure (\<lambda>(depth_limit, s). nat (depth_limit - nodes s))")
     (auto simp: loop_step_def loop_body_def Let_def
           split: list.splits if_splits option.splits)

declare run_trace.simps [simp del]

section \<open>True division of two integers\<close>

text \<open>
  The last line of \<^verbatim>\<open>get_stability_ratio\<close> divides two Python integers with
  \<^verbatim>\<open>/\<close>. That is true division: it raises \<^verbatim>\<open>ZeroDivisionError\<close> for a zero
  divisor, and otherwise returns the quotient rounded to the nearest IEEE 754
  binary64 number (53 significant bits, ties to the even significand, gradual
  underflow down to \<open>2 ^ - 1074\<close>), or raises \<^verbatim>\<open>OverflowError\<close> when the rounded
  quotient does not fit below \<open>2 ^ 1024\<close>. A float is represented by the
  rational number it denotes; the two zeros of binary64 are the one rational 0.
\<close>

datatype py_error = ZeroDivisionError | OverflowError

definition pow2 :: "int \<Rightarrow> rat" where
  "pow2 e = (if 0 \<le> e then 2 ^ nat e else 1 / 2 ^ nat (- e))"

text \<open>
  For positive \<open>a\<close> and \<open>b\<close>, the exponent of the binade of \<open>a / b\<close>: the
  integer \<open>k\<close> with \<open>2 ^ k \<le> a / b < 2 ^ (k + 1)\<close>. The bit lengths place it
  within one, and one comparison decides.
\<close>

definition floor_log2 :: "int \<Rightarrow> int \<Rightarrow> int" where
  "floor_log2 a b =
     (let d = bitlen a - bitlen b
      in if b * 2 ^ nat d \<le> a * 2 ^ nat (- d) then d else d - 1)"

text \<open>The integer nearest to \<open>num / den\<close> for a positive \<open>den\<close>, ties to even.\<close>

definition round_half_even :: "int \<Rightarrow> int \<Rightarrow> int" where
  "round_half_even num den =
     (let q = num div den; rest = num mod den
      in if 2 * rest < den then q
         else if den < 2 * rest then q + 1
         else if even q then q else q + 1)"

text \<open>
  The quotient is scaled by the unit in the last place \<open>2 ^ e\<close> of its binade
  (never below \<open>2 ^ - 1074\<close>), rounded to an integer significand, and scaled back.
\<close>

definition int_true_divide :: "int \<Rightarrow> int \<Rightarrow> py_error + rat" where
  "int_true_divide a b =
     (if b = 0 then Inl ZeroDivisionError
      else if a = 0 then Inr 0
      else
        (let e = max (floor_log2 \<bar>a\<bar> \<bar>b\<bar> - 52) (- 1074);
             n = round_half_even (\<bar>a\<bar> * 2 ^ nat (- e)) (\<bar>b\<bar> * 2 ^ nat e);
             x = of_int n * pow2 e
         in if 2 ^ 1024 \<le> x then Inl OverflowError
            else Inr (if (a < 0) = (b < 0) then x else - x)))"

text \<open>
  The two return statements: the float literal \<^verbatim>\<open>50.0\<close>, which is the number
  50 exactly, or the true division of the two counters. The result is the
  returned float, or the exception that the division raises.
\<close>

definition ratio_of :: "loop_state \<Rightarrow> py_error + rat" where
  "ratio_of s =
     (if splits s = 0 then Inr 50 else int_true_divide (straight_paths s) (splits s))"

definition get_stability_ratio :: "int \<Rightarrow> int \<Rightarrow> int \<Rightarrow> py_error + rat" where
  "get_stability_ratio modulus residue depth_limit =
     ratio_of (traverse depth_limit (initial_state modulus residue))"

section \<open>Facts about the loop\<close>

text \<open>
  The trace is a run of the loop: it starts at the given state, each state
  follows from its predecessor by one iteration, and it ends in the state
  that \<open>traverse\<close> returns, where the loop condition fails.
\<close>

lemma loop_step_nodes:
  "loop_step depth_limit s = Some s' \<Longrightarrow> nodes s' = nodes s + 1 \<and> nodes s < depth_limit"
  by (auto simp: loop_step_def loop_body_def Let_def split: list.splits if_splits option.splits)

lemma run_trace_not_Nil: "run_trace depth_limit s \<noteq> []"
  by (subst run_trace.simps) simp

lemma hd_run_trace: "hd (run_trace depth_limit s) = s"
  by (subst run_trace.simps) simp

lemma last_run_trace: "last (run_trace depth_limit s) = traverse depth_limit s"
proof (induction depth_limit s rule: run_trace.induct)
  case (1 depth_limit s)
  show ?case
  proof (cases "loop_step depth_limit s")
    case None
    then show ?thesis
      by (subst run_trace.simps, subst traverse.simps) simp
  next
    case (Some s')
    with "1" have "last (run_trace depth_limit s') = traverse depth_limit s'"
      by simp
    with Some show ?thesis
      by (subst run_trace.simps, subst traverse.simps) (simp add: run_trace_not_Nil)
  qed
qed

lemma traverse_exit: "loop_step depth_limit (traverse depth_limit s) = None"
proof (induction depth_limit s rule: traverse.induct)
  case (1 depth_limit s)
  show ?case
  proof (cases "loop_step depth_limit s")
    case None
    then show ?thesis by (subst traverse.simps) simp
  next
    case (Some s')
    with "1" show ?thesis by (subst traverse.simps) simp
  qed
qed

lemma run_trace_steps:
  "Suc i < length (run_trace depth_limit s) \<Longrightarrow>
   loop_step depth_limit (run_trace depth_limit s ! i) = Some (run_trace depth_limit s ! Suc i)"
proof (induction depth_limit s arbitrary: i rule: run_trace.induct)
  case (1 depth_limit s)
  show ?case
  proof (cases "loop_step depth_limit s")
    case None
    then have "run_trace depth_limit s = [s]"
      by (subst run_trace.simps) simp
    with "1.prems" show ?thesis by simp
  next
    case (Some s')
    then have unfold: "run_trace depth_limit s = s # run_trace depth_limit s'"
      by (subst run_trace.simps) simp
    show ?thesis
    proof (cases i)
      case 0
      with unfold Some show ?thesis
        by (simp add: hd_conv_nth [symmetric] run_trace_not_Nil hd_run_trace)
    next
      case (Suc j)
      with "1.prems" unfold have "Suc j < length (run_trace depth_limit s')"
        by simp
      with "1.IH" [OF Some] Suc unfold show ?thesis
        by simp
    qed
  qed
qed

lemma run_trace_nodes:
  "i < length (run_trace depth_limit s) \<Longrightarrow>
   nodes (run_trace depth_limit s ! i) = nodes s + int i"
proof (induction i)
  case 0
  then show ?case
    by (simp add: hd_conv_nth [symmetric] run_trace_not_Nil hd_run_trace)
next
  case (Suc i)
  then have "loop_step depth_limit (run_trace depth_limit s ! i)
      = Some (run_trace depth_limit s ! Suc i)"
    by (simp add: run_trace_steps)
  from loop_step_nodes [OF this] Suc show ?case by simp
qed

lemma length_run_trace:
  "length (run_trace depth_limit s) \<le> nat (depth_limit - nodes s) + 1"
proof (induction depth_limit s rule: run_trace.induct)
  case (1 depth_limit s)
  show ?case
  proof (cases "loop_step depth_limit s")
    case None
    then have "run_trace depth_limit s = [s]"
      by (subst run_trace.simps) simp
    then show ?thesis by simp
  next
    case (Some s')
    then have unfold: "run_trace depth_limit s = s # run_trace depth_limit s'"
      by (subst run_trace.simps) simp
    from loop_step_nodes [OF Some]
    have "Suc (nat (depth_limit - nodes s')) = nat (depth_limit - nodes s)"
      by arith
    with "1.IH" [OF Some] unfold show ?thesis
      by simp
  qed
qed

lemma loop_step_Cons:
  "queue s = cur # rest \<Longrightarrow> nodes s < depth_limit \<Longrightarrow>
   loop_step depth_limit s = Some (loop_body cur (s\<lparr>queue := rest\<rparr>))"
  by (simp add: loop_step_def)

text \<open>The three branches of one iteration.\<close>

lemma ambiguous_residue: "get_next_state cur = None \<Longrightarrow> r cur \<noteq> 1"
  by (auto simp: get_next_state_def split: if_splits)

lemma loop_body_terminal:
  "r cur = 1 \<Longrightarrow> m cur mod 2 = 0 \<Longrightarrow> loop_body cur s = s\<lparr>nodes := nodes s + 1\<rparr>"
  by (simp add: loop_body_def)

lemma loop_body_merge:
  "\<not> (r cur = 1 \<and> m cur mod 2 = 0) \<Longrightarrow> get_next_state cur = Some nxt \<Longrightarrow>
   loop_body cur s =
     s\<lparr>straight_paths := straight_paths s + 1, queue := queue s @ [nxt],
       nodes := nodes s + 1\<rparr>"
  by (auto simp: loop_body_def)

lemma loop_body_split:
  "get_next_state cur = None \<Longrightarrow>
   loop_body cur s =
     s\<lparr>splits := splits s + 1, queue := queue s @ split_children cur,
       nodes := nodes s + 1\<rparr>"
  by (auto simp: loop_body_def dest: ambiguous_residue)

text \<open>What one iteration appends to the queue, and what it does to the counters.\<close>

lemma get_next_state_layer: "get_next_state parent = Some child \<Longrightarrow> layer child = layer parent + 1"
  by (auto simp: get_next_state_def split: if_splits)

lemma split_children_layer:
  "child \<in> set (split_children parent) \<Longrightarrow> layer child = layer parent + 1"
  by (auto simp: split_children_def Let_def)

lemma loop_step_derived:
  assumes "loop_step depth_limit s = Some s'"
  shows "\<exists>cur rest derived.
           queue s = cur # rest \<and> queue s' = rest @ derived \<and>
           (\<forall>child \<in> set derived. layer child = layer cur + 1)"
proof (cases "queue s")
  case Nil
  with assms show ?thesis by (simp add: loop_step_def)
next
  case (Cons cur rest)
  with assms have s': "s' = loop_body cur (s\<lparr>queue := rest\<rparr>)"
    by (simp add: loop_step_def split: if_splits)
  have "\<exists>derived. queue s' = rest @ derived \<and>
          (\<forall>child \<in> set derived. layer child = layer cur + 1)"
  proof (cases "r cur = 1 \<and> m cur mod 2 = 0")
    case True
    with s' have "queue s' = rest @ []" by (simp add: loop_body_terminal)
    then show ?thesis by (intro exI [of _ "[]"]) simp
  next
    case False
    show ?thesis
    proof (cases "get_next_state cur")
      case None
      with s' have "queue s' = rest @ split_children cur"
        by (simp add: loop_body_split)
      then show ?thesis
        by (intro exI [of _ "split_children cur"]) (simp add: split_children_layer)
    next
      case (Some nxt)
      with False s' have "queue s' = rest @ [nxt]"
        by (simp add: loop_body_merge)
      with Some show ?thesis
        by (intro exI [of _ "[nxt]"]) (simp add: get_next_state_layer)
    qed
  qed
  with Cons show ?thesis by simp
qed

lemma loop_step_counters:
  assumes "loop_step depth_limit s = Some s'"
  shows "straight_paths s \<le> straight_paths s' \<and> splits s \<le> splits s' \<and> nodes s \<le> nodes s'"
proof (cases "queue s")
  case Nil
  with assms show ?thesis by (simp add: loop_step_def)
next
  case (Cons cur rest)
  with assms have s': "s' = loop_body cur (s\<lparr>queue := rest\<rparr>)"
    by (simp add: loop_step_def split: if_splits)
  show ?thesis
  proof (cases "r cur = 1 \<and> m cur mod 2 = 0")
    case True
    with s' show ?thesis by (simp add: loop_body_terminal)
  next
    case False
    show ?thesis
    proof (cases "get_next_state cur")
      case None
      with s' show ?thesis by (simp add: loop_body_split)
    next
      case (Some nxt)
      with False s' show ?thesis by (simp add: loop_body_merge)
    qed
  qed
qed

lemma run_trace_counters_ge:
  "i < length (run_trace depth_limit s) \<Longrightarrow>
   straight_paths s \<le> straight_paths (run_trace depth_limit s ! i) \<and>
   splits s \<le> splits (run_trace depth_limit s ! i) \<and>
   nodes s \<le> nodes (run_trace depth_limit s ! i)"
proof (induction i)
  case 0
  then show ?case
    by (simp add: hd_conv_nth [symmetric] run_trace_not_Nil hd_run_trace)
next
  case (Suc i)
  then have "loop_step depth_limit (run_trace depth_limit s ! i)
      = Some (run_trace depth_limit s ! Suc i)"
    by (simp add: run_trace_steps)
  from loop_step_counters [OF this] Suc show ?case by simp
qed

text \<open>Two runs used as concrete inputs below, evaluated by the code equations.\<close>

lemma traverse_32_16:
  "traverse 400 (initial_state 32 16) =
     \<lparr>queue = [], straight_paths = 4, splits = 0, nodes = 5\<rparr>"
  by code_simp

lemma traverse_1_1:
  "traverse 3 (initial_state 1 1) =
     \<lparr>queue = [\<lparr>m = 6, r = 7, symbol_id = ''ROOTMB'', layer = 2\<rparr>,
               \<lparr>m = 3, r = 2, symbol_id = ''ROOTMAD'', layer = 3\<rparr>],
      straight_paths = 2, splits = 1, nodes = 3\<rparr>"
  by code_simp

lemma run_trace_1_1:
  "run_trace 3 (initial_state 1 1) =
    [\<lparr>queue = [\<lparr>m = 1, r = 1, symbol_id = ''ROOT'', layer = 0\<rparr>],
      straight_paths = 0, splits = 0, nodes = 0\<rparr>,
     \<lparr>queue = [\<lparr>m = 3, r = 4, symbol_id = ''ROOTM'', layer = 1\<rparr>],
      straight_paths = 1, splits = 0, nodes = 1\<rparr>,
     \<lparr>queue = [\<lparr>m = 6, r = 4, symbol_id = ''ROOTMA'', layer = 2\<rparr>,
               \<lparr>m = 6, r = 7, symbol_id = ''ROOTMB'', layer = 2\<rparr>],
      straight_paths = 1, splits = 1, nodes = 2\<rparr>,
     \<lparr>queue = [\<lparr>m = 6, r = 7, symbol_id = ''ROOTMB'', layer = 2\<rparr>,
               \<lparr>m = 3, r = 2, symbol_id = ''ROOTMAD'', layer = 3\<rparr>],
      straight_paths = 2, splits = 1, nodes = 3\<rparr>]"
  by code_simp

lemma traverse_1_0:
  "traverse 7 (initial_state 1 0) =
     \<lparr>queue = [\<lparr>m = 2, r = 0, symbol_id = ''ROOTADADA'', layer = 5\<rparr>,
               \<lparr>m = 2, r = 1, symbol_id = ''ROOTADADB'', layer = 5\<rparr>],
      straight_paths = 2, splits = 3, nodes = 7\<rparr>"
  by code_simp

text \<open>Values of the true division: an exact one and a rounded one.\<close>

lemma bitlen_1_2_3: "bitlen 1 = 1" "bitlen 2 = 2" "bitlen 3 = 2"
  by code_simp+

lemma true_divide_2_1: "int_true_divide 2 1 = Inr 2"
  by (simp add: int_true_divide_def floor_log2_def round_half_even_def pow2_def Let_def
      bitlen_1_2_3)

lemma true_divide_2_3:
  "int_true_divide 2 3 = Inr (6004799503160661 / 9007199254740992)"
  by (simp add: int_true_divide_def floor_log2_def round_half_even_def pow2_def Let_def
      bitlen_1_2_3)

lemma length_run_trace_32_16: "length (run_trace 400 (initial_state 32 16)) = 6"
  by code_simp

section \<open>The transition rule\<close>

text \<open>
  C1. For every state with modulus at least 1 and residue at least 0,
  \<open>get_next_state\<close> follows the three-case rule: an even residue with an
  even modulus gives the successor with both halved and the depth raised by
  one (label extended by D); an even residue with an odd modulus gives
  \<open>None\<close>, the ambiguous result; an odd residue gives the successor with
  modulus \<open>3 * m\<close>, residue \<open>3 * r + 1\<close> and the depth raised by one (label
  extended by M), never \<open>None\<close>. In particular modulus 1 with residue 1 gives
  modulus 3 with residue 4.
\<close>

theorem get_next_state_three_cases:
  assumes "1 \<le> m s" and "0 \<le> r s"
  shows "(even (r s) \<and> even (m s) \<longrightarrow>
            get_next_state s =
              Some \<lparr>m = m s div 2, r = r s div 2,
                    symbol_id = symbol_id s @ ''D'', layer = layer s + 1\<rparr>) \<and>
         (even (r s) \<and> odd (m s) \<longrightarrow> get_next_state s = None) \<and>
         (odd (r s) \<longrightarrow>
            get_next_state s =
              Some \<lparr>m = 3 * m s, r = 3 * r s + 1,
                    symbol_id = symbol_id s @ ''M'', layer = layer s + 1\<rparr>) \<and>
         get_next_state \<lparr>m = 1, r = 1, symbol_id = label, layer = depth\<rparr> =
           Some \<lparr>m = 3, r = 4, symbol_id = label @ ''M'', layer = depth + 1\<rparr>"
  by (simp add: get_next_state_def even_iff_mod_2_eq_zero)

theorem get_next_state_three_cases_witness:
  "get_next_state \<lparr>m = 32, r = 16, symbol_id = ''ROOT'', layer = 0\<rparr> =
     Some \<lparr>m = 16, r = 8, symbol_id = ''ROOTD'', layer = 1\<rparr> \<and>
   get_next_state \<lparr>m = 3, r = 4, symbol_id = ''ROOTM'', layer = 1\<rparr> = None \<and>
   get_next_state \<lparr>m = 5, r = 7, symbol_id = ''R'', layer = 2\<rparr> =
     Some \<lparr>m = 15, r = 22, symbol_id = ''RM'', layer = 3\<rparr>"
  using get_next_state_three_cases [of "\<lparr>m = 32, r = 16, symbol_id = ''ROOT'', layer = 0\<rparr>"]
    get_next_state_three_cases [of "\<lparr>m = 3, r = 4, symbol_id = ''ROOTM'', layer = 1\<rparr>"]
    get_next_state_three_cases [of "\<lparr>m = 5, r = 7, symbol_id = ''R'', layer = 2\<rparr>"]
  by simp

section \<open>The returned ratio\<close>

text \<open>
  C2. The value returned by \<open>get_stability_ratio\<close> is the float 50 whenever the
  traversal under the given budget ends with zero splits, and otherwise it is
  exactly the outcome of the Python expression \<^verbatim>\<open>straight_paths / splits\<close> on
  the two counters of that traversal: the true division of the merge count by
  the split count. This holds for all integer arguments, so in particular on
  the stated domain.
\<close>

theorem stability_ratio_value:
  "(splits (traverse depth_limit (initial_state modulus residue)) = 0 \<longrightarrow>
      get_stability_ratio modulus residue depth_limit = Inr 50) \<and>
   (splits (traverse depth_limit (initial_state modulus residue)) \<noteq> 0 \<longrightarrow>
      get_stability_ratio modulus residue depth_limit =
        int_true_divide
          (straight_paths (traverse depth_limit (initial_state modulus residue)))
          (splits (traverse depth_limit (initial_state modulus residue))))"
  by (simp add: get_stability_ratio_def ratio_of_def)

theorem stability_ratio_value_witness:
  "splits (traverse 400 (initial_state 32 16)) = 0 \<and>
   get_stability_ratio 32 16 400 = Inr 50 \<and>
   splits (traverse 3 (initial_state 1 1)) \<noteq> 0 \<and>
   get_stability_ratio 1 1 3 = Inr 2 \<and>
   splits (traverse 7 (initial_state 1 0)) \<noteq> 0 \<and>
   get_stability_ratio 1 0 7 = Inr (6004799503160661 / 9007199254740992)"
  using stability_ratio_value [of 400 32 16] stability_ratio_value [of 3 1 1]
    stability_ratio_value [of 7 1 0]
  by (simp add: traverse_32_16 traverse_1_1 traverse_1_0 true_divide_2_1 true_divide_2_3)

section \<open>Single iterations of the traversal\<close>

text \<open>
  C3. When the traversal dequeues a state \<open>cur\<close> whose transition is ambiguous
  (the loop is entered with \<open>cur\<close> at the head of the queue), the iteration
  adds one to \<open>splits\<close>, leaves \<open>straight_paths\<close> alone, and appends exactly
  two states to the rest of the queue, in this order: child A with modulus
  \<open>2 * m\<close>, residue \<open>r\<close> and depth plus one, then child B with modulus
  \<open>2 * m\<close>, residue \<open>r + m\<close> and depth plus one. So the residues of the two
  children differ by \<open>m\<close> and both moduli are \<open>2 * m\<close>.
\<close>

theorem ambiguous_iteration:
  assumes "queue s = cur # rest" and "nodes s < depth_limit"
    and "get_next_state cur = None"
  shows "\<exists>child_A child_B.
           loop_step depth_limit s =
             Some (s\<lparr>queue := rest @ [child_A, child_B],
                     splits := splits s + 1, nodes := nodes s + 1\<rparr>) \<and>
           child_A = \<lparr>m = 2 * m cur, r = r cur,
                      symbol_id = symbol_id cur @ ''A'', layer = layer cur + 1\<rparr> \<and>
           child_B = \<lparr>m = 2 * m cur, r = r cur + m cur,
                      symbol_id = symbol_id cur @ ''B'', layer = layer cur + 1\<rparr> \<and>
           r child_B - r child_A = m cur \<and>
           m child_A = 2 * m cur \<and> m child_B = 2 * m cur"
proof -
  from assms(3)
  have "loop_body cur (s\<lparr>queue := rest\<rparr>) =
          s\<lparr>queue := rest @ split_children cur, splits := splits s + 1, nodes := nodes s + 1\<rparr>"
    by (simp add: loop_body_split)
  with loop_step_Cons [OF assms(1,2)] show ?thesis
    by (simp add: split_children_def Let_def mult.commute)
qed

theorem ambiguous_iteration_witness:
  "queue (initial_state 3 4) = [\<lparr>m = 3, r = 4, symbol_id = ''ROOT'', layer = 0\<rparr>] \<and>
   nodes (initial_state 3 4) < 1 \<and>
   get_next_state \<lparr>m = 3, r = 4, symbol_id = ''ROOT'', layer = 0\<rparr> = None \<and>
   loop_step 1 (initial_state 3 4) =
     Some \<lparr>queue = [\<lparr>m = 6, r = 4, symbol_id = ''ROOTA'', layer = 1\<rparr>,
                    \<lparr>m = 6, r = 7, symbol_id = ''ROOTB'', layer = 1\<rparr>],
           straight_paths = 0, splits = 1, nodes = 1\<rparr>"
  using ambiguous_iteration [of "initial_state 3 4"
      "\<lparr>m = 3, r = 4, symbol_id = ''ROOT'', layer = 0\<rparr>" "[]" 1]
  by (simp add: initial_state_def get_next_state_def)

text \<open>
  C5. When the traversal dequeues a state with residue 1 and an even modulus,
  the iteration is terminal: \<open>nodes\<close> grows by one, the queue is the rest of
  the old queue with nothing appended, and \<open>straight_paths\<close> and \<open>splits\<close>
  keep their values.
\<close>

theorem terminal_iteration:
  assumes "queue s = cur # rest" and "nodes s < depth_limit"
    and "r cur = 1" and "even (m cur)"
  shows "loop_step depth_limit s = Some (s\<lparr>queue := rest, nodes := nodes s + 1\<rparr>)"
  using assms by (simp add: loop_step_def loop_body_def even_iff_mod_2_eq_zero)

theorem terminal_iteration_witness:
  "loop_step 400
     \<lparr>queue = [\<lparr>m = 2, r = 1, symbol_id = ''ROOTDDDD'', layer = 4\<rparr>,
               \<lparr>m = 3, r = 4, symbol_id = ''X'', layer = 7\<rparr>],
      straight_paths = 4, splits = 0, nodes = 4\<rparr> =
   Some \<lparr>queue = [\<lparr>m = 3, r = 4, symbol_id = ''X'', layer = 7\<rparr>],
         straight_paths = 4, splits = 0, nodes = 5\<rparr>"
  using terminal_iteration [of
      "\<lparr>queue = [\<lparr>m = 2, r = 1, symbol_id = ''ROOTDDDD'', layer = 4\<rparr>,
                 \<lparr>m = 3, r = 4, symbol_id = ''X'', layer = 7\<rparr>],
        straight_paths = 4, splits = 0, nodes = 4\<rparr>"
      "\<lparr>m = 2, r = 1, symbol_id = ''ROOTDDDD'', layer = 4\<rparr>"
      "[\<lparr>m = 3, r = 4, symbol_id = ''X'', layer = 7\<rparr>]" 400]
  by simp

section \<open>Termination and the budget\<close>

text \<open>
  C4. For a positive budget the traversal terminates: \<open>traverse\<close> is a total
  function, the run it describes is the finite list \<open>run_trace\<close> (each state
  follows from the one before by one iteration, and the loop condition fails
  in the last one), \<open>nodes\<close> counts the iterations done so far, the number
  of iterations is at most the budget, and the final \<open>nodes\<close>, which equals the
  number of iterations, does not exceed the budget.
\<close>

theorem traversal_within_budget:
  assumes "0 < depth_limit"
  shows "hd (run_trace depth_limit (initial_state modulus residue)) =
           initial_state modulus residue \<and>
         (\<forall>i. Suc i < length (run_trace depth_limit (initial_state modulus residue)) \<longrightarrow>
            loop_step depth_limit (run_trace depth_limit (initial_state modulus residue) ! i) =
              Some (run_trace depth_limit (initial_state modulus residue) ! Suc i)) \<and>
         (\<forall>i < length (run_trace depth_limit (initial_state modulus residue)).
            nodes (run_trace depth_limit (initial_state modulus residue) ! i) = int i) \<and>
         last (run_trace depth_limit (initial_state modulus residue)) =
           traverse depth_limit (initial_state modulus residue) \<and>
         loop_step depth_limit (traverse depth_limit (initial_state modulus residue)) = None \<and>
         length (run_trace depth_limit (initial_state modulus residue)) - 1 \<le> nat depth_limit \<and>
         nodes (traverse depth_limit (initial_state modulus residue)) =
           int (length (run_trace depth_limit (initial_state modulus residue)) - 1) \<and>
         nodes (traverse depth_limit (initial_state modulus residue)) \<le> depth_limit"
proof -
  let ?s = "initial_state modulus residue"
  let ?tr = "run_trace depth_limit ?s"
  have ne: "?tr \<noteq> []" by (rule run_trace_not_Nil)
  have len: "length ?tr - 1 \<le> nat depth_limit"
    using length_run_trace [of depth_limit ?s] by (simp add: initial_state_def)
  have "nodes (last ?tr) = nodes ?s + int (length ?tr - 1)"
    using ne by (simp add: last_conv_nth run_trace_nodes)
  then have n: "nodes (traverse depth_limit ?s) = int (length ?tr - 1)"
    by (simp add: last_run_trace initial_state_def)
  from n len assms have "nodes (traverse depth_limit ?s) \<le> depth_limit"
    by linarith
  moreover have "\<forall>i < length ?tr. nodes (?tr ! i) = int i"
    by (simp add: run_trace_nodes initial_state_def)
  ultimately show ?thesis using n len
    by (simp add: hd_run_trace run_trace_steps last_run_trace traverse_exit)
qed

theorem traversal_within_budget_witness:
  "(0::int) < 400 \<and>
   Suc 3 < length (run_trace 400 (initial_state 32 16)) \<and>
   loop_step 400 (run_trace 400 (initial_state 32 16) ! 3) =
     Some (run_trace 400 (initial_state 32 16) ! Suc 3) \<and>
   nodes (run_trace 400 (initial_state 32 16) ! 3) = 3 \<and>
   length (run_trace 400 (initial_state 32 16)) - 1 = 5 \<and>
   nodes (traverse 400 (initial_state 32 16)) = 5 \<and>
   nodes (traverse 400 (initial_state 32 16)) \<le> 400"
  using traversal_within_budget [of 400 32 16]
  by (simp add: traverse_32_16 length_run_trace_32_16)

section \<open>Invariants of a run\<close>

text \<open>
  C6. Every derived state has the depth of its parent plus one: the successor
  returned by \<open>get_next_state\<close>, the two children built on a bifurcation, and,
  along any run started from a root of depth 0, every state that an iteration
  appends to the queue, whose parent is the state dequeued by that iteration.
\<close>

theorem depth_parent_plus_one:
  "(\<forall>child. get_next_state parent = Some child \<longrightarrow> layer child = layer parent + 1) \<and>
   (\<forall>child \<in> set (split_children parent). layer child = layer parent + 1) \<and>
   (\<forall>i. Suc i < length (run_trace depth_limit (initial_state modulus residue)) \<longrightarrow>
      (\<exists>cur rest derived.
         queue (run_trace depth_limit (initial_state modulus residue) ! i) = cur # rest \<and>
         queue (run_trace depth_limit (initial_state modulus residue) ! Suc i) = rest @ derived \<and>
         (\<forall>child \<in> set derived. layer child = layer cur + 1))) \<and>
   map layer (queue (hd (run_trace depth_limit (initial_state modulus residue)))) = [0]"
proof (intro conjI allI impI ballI)
  fix child assume "get_next_state parent = Some child"
  then show "layer child = layer parent + 1" by (rule get_next_state_layer)
next
  fix child assume "child \<in> set (split_children parent)"
  then show "layer child = layer parent + 1" by (rule split_children_layer)
next
  fix i assume "Suc i < length (run_trace depth_limit (initial_state modulus residue))"
  then have "loop_step depth_limit (run_trace depth_limit (initial_state modulus residue) ! i) =
    Some (run_trace depth_limit (initial_state modulus residue) ! Suc i)"
    by (rule run_trace_steps)
  then show "\<exists>cur rest derived.
         queue (run_trace depth_limit (initial_state modulus residue) ! i) = cur # rest \<and>
         queue (run_trace depth_limit (initial_state modulus residue) ! Suc i) = rest @ derived \<and>
         (\<forall>child \<in> set derived. layer child = layer cur + 1)"
    by (rule loop_step_derived)
next
  show "map layer (queue (hd (run_trace depth_limit (initial_state modulus residue)))) = [0]"
    by (simp add: hd_run_trace initial_state_def)
qed

theorem depth_parent_plus_one_witness:
  "get_next_state \<lparr>m = 1, r = 1, symbol_id = ''ROOT'', layer = 0\<rparr> =
     Some \<lparr>m = 3, r = 4, symbol_id = ''ROOTM'', layer = 1\<rparr> \<and>
   layer \<lparr>m = 3, r = 4, symbol_id = ''ROOTM'', layer = 1\<rparr> =
     layer \<lparr>m = 1, r = 1, symbol_id = ''ROOT'', layer = 0\<rparr> + 1 \<and>
   map layer (split_children \<lparr>m = 1, r = 1, symbol_id = ''ROOT'', layer = 0\<rparr>) = [1, 1] \<and>
   Suc 1 < length (run_trace 3 (initial_state 1 1)) \<and>
   (\<exists>cur rest derived.
      queue (run_trace 3 (initial_state 1 1) ! 1) = cur # rest \<and>
      queue (run_trace 3 (initial_state 1 1) ! Suc 1) = rest @ derived \<and>
      (\<forall>child \<in> set derived. layer child = layer cur + 1))"
  using depth_parent_plus_one [of "\<lparr>m = 1, r = 1, symbol_id = ''ROOT'', layer = 0\<rparr>" 3 1 1]
  by (simp add: run_trace_1_1 get_next_state_def split_children_def)

text \<open>
  C8. Throughout a run, from each loop iteration to the next, none of the three
  counters \<open>straight_paths\<close>, \<open>splits\<close> and \<open>nodes\<close> decreases, and at every
  loop head all three are non-negative.
\<close>

theorem counters_monotone:
  "(\<forall>i. Suc i < length (run_trace depth_limit (initial_state modulus residue)) \<longrightarrow>
      straight_paths (run_trace depth_limit (initial_state modulus residue) ! i)
        \<le> straight_paths (run_trace depth_limit (initial_state modulus residue) ! Suc i) \<and>
      splits (run_trace depth_limit (initial_state modulus residue) ! i)
        \<le> splits (run_trace depth_limit (initial_state modulus residue) ! Suc i) \<and>
      nodes (run_trace depth_limit (initial_state modulus residue) ! i)
        \<le> nodes (run_trace depth_limit (initial_state modulus residue) ! Suc i)) \<and>
   (\<forall>i < length (run_trace depth_limit (initial_state modulus residue)).
      0 \<le> straight_paths (run_trace depth_limit (initial_state modulus residue) ! i) \<and>
      0 \<le> splits (run_trace depth_limit (initial_state modulus residue) ! i) \<and>
      0 \<le> nodes (run_trace depth_limit (initial_state modulus residue) ! i))"
proof (intro conjI allI impI)
  fix i
  assume "Suc i < length (run_trace depth_limit (initial_state modulus residue))"
  then have step: "loop_step depth_limit (run_trace depth_limit (initial_state modulus residue) ! i) =
    Some (run_trace depth_limit (initial_state modulus residue) ! Suc i)"
    by (rule run_trace_steps)
  from loop_step_counters [OF step]
  show "straight_paths (run_trace depth_limit (initial_state modulus residue) ! i)
        \<le> straight_paths (run_trace depth_limit (initial_state modulus residue) ! Suc i)"
    and "splits (run_trace depth_limit (initial_state modulus residue) ! i)
        \<le> splits (run_trace depth_limit (initial_state modulus residue) ! Suc i)"
    and "nodes (run_trace depth_limit (initial_state modulus residue) ! i)
        \<le> nodes (run_trace depth_limit (initial_state modulus residue) ! Suc i)"
    by simp_all
next
  fix i
  assume "i < length (run_trace depth_limit (initial_state modulus residue))"
  from run_trace_counters_ge [OF this]
  show "0 \<le> straight_paths (run_trace depth_limit (initial_state modulus residue) ! i)"
    and "0 \<le> splits (run_trace depth_limit (initial_state modulus residue) ! i)"
    and "0 \<le> nodes (run_trace depth_limit (initial_state modulus residue) ! i)"
    by (simp_all add: initial_state_def)
qed

theorem counters_monotone_witness:
  "Suc 1 < length (run_trace 3 (initial_state 1 1)) \<and>
   straight_paths (run_trace 3 (initial_state 1 1) ! 1)
     \<le> straight_paths (run_trace 3 (initial_state 1 1) ! Suc 1) \<and>
   splits (run_trace 3 (initial_state 1 1) ! 1) = 0 \<and>
   splits (run_trace 3 (initial_state 1 1) ! Suc 1) = 1 \<and>
   nodes (run_trace 3 (initial_state 1 1) ! 1)
     \<le> nodes (run_trace 3 (initial_state 1 1) ! Suc 1) \<and>
   0 \<le> splits (run_trace 3 (initial_state 1 1) ! 1)"
  using counters_monotone [of 3 1 1]
  by (simp add: run_trace_1_1)

section \<open>Concrete runs and the edges of the domain\<close>

text \<open>
  C7. The call with modulus 32, residue 16 and budget 400 halves four times,
  reaches the state with residue 1 and modulus 2, which is terminal, and ends
  with an empty queue, four merges and no split; it returns the sentinel 50.
\<close>

theorem scenario_32_16_400:
  "run_trace 400 (initial_state 32 16) =
     [\<lparr>queue = [\<lparr>m = 32, r = 16, symbol_id = ''ROOT'', layer = 0\<rparr>],
       straight_paths = 0, splits = 0, nodes = 0\<rparr>,
      \<lparr>queue = [\<lparr>m = 16, r = 8, symbol_id = ''ROOTD'', layer = 1\<rparr>],
       straight_paths = 1, splits = 0, nodes = 1\<rparr>,
      \<lparr>queue = [\<lparr>m = 8, r = 4, symbol_id = ''ROOTDD'', layer = 2\<rparr>],
       straight_paths = 2, splits = 0, nodes = 2\<rparr>,
      \<lparr>queue = [\<lparr>m = 4, r = 2, symbol_id = ''ROOTDDD'', layer = 3\<rparr>],
       straight_paths = 3, splits = 0, nodes = 3\<rparr>,
      \<lparr>queue = [\<lparr>m = 2, r = 1, symbol_id = ''ROOTDDDD'', layer = 4\<rparr>],
       straight_paths = 4, splits = 0, nodes = 4\<rparr>,
      \<lparr>queue = [], straight_paths = 4, splits = 0, nodes = 5\<rparr>] \<and>
   traverse 400 (initial_state 32 16) =
     \<lparr>queue = [], straight_paths = 4, splits = 0, nodes = 5\<rparr> \<and>
   get_stability_ratio 32 16 400 = Inr 50"
  by code_simp

text \<open>
  C10. With a budget of zero or less the loop is never entered: the run
  consists of the initial state alone, \<open>nodes\<close>, \<open>straight_paths\<close> and
  \<open>splits\<close> stay 0, and the sentinel 50 is returned; no error is raised.
\<close>

theorem nonpositive_budget:
  assumes "depth_limit \<le> 0"
  shows "run_trace depth_limit (initial_state modulus residue) = [initial_state modulus residue] \<and>
         traverse depth_limit (initial_state modulus residue) = initial_state modulus residue \<and>
         nodes (traverse depth_limit (initial_state modulus residue)) = 0 \<and>
         straight_paths (traverse depth_limit (initial_state modulus residue)) = 0 \<and>
         splits (traverse depth_limit (initial_state modulus residue)) = 0 \<and>
         get_stability_ratio modulus residue depth_limit = Inr 50"
proof -
  from assms have exit: "loop_step depth_limit (initial_state modulus residue) = None"
    by (simp add: loop_step_def initial_state_def)
  then have tr: "run_trace depth_limit (initial_state modulus residue) = [initial_state modulus residue]"
    by (subst run_trace.simps) simp
  from exit have fin: "traverse depth_limit (initial_state modulus residue) = initial_state modulus residue"
    by (subst traverse.simps) simp
  have "nodes (initial_state modulus residue) = 0"
    and "straight_paths (initial_state modulus residue) = 0"
    and "splits (initial_state modulus residue) = 0"
    by (simp_all add: initial_state_def)
  with tr fin show ?thesis
    by (simp add: get_stability_ratio_def ratio_of_def)
qed

theorem nonpositive_budget_witness:
  "(-7::int) \<le> 0 \<and>
   traverse (-7) (initial_state 32 16) =
     \<lparr>queue = [\<lparr>m = 32, r = 16, symbol_id = ''ROOT'', layer = 0\<rparr>],
      straight_paths = 0, splits = 0, nodes = 0\<rparr> \<and>
   get_stability_ratio 32 16 (-7) = Inr 50 \<and>
   get_stability_ratio 1 1 0 = Inr 50"
  using nonpositive_budget [of "-7" 32 16] nonpositive_budget [of 0 1 1]
  by (simp add: initial_state_def)

end
